theory Spec2Isabelle
  imports Complex_Main
begin

section \<open>JavaScript strings and numbers\<close>

text \<open>
  A JavaScript string is a sequence of code units. The model uses \<open>string\<close> (a list of
  8-bit characters), read as the code units U+0000 to U+00FF; white space and letter case
  are those of that range.
\<close>

definition is_js_whitespace :: "char \<Rightarrow> bool" where
  \<comment> \<open>the characters \<open>String.prototype.trim\<close> strips: TAB, LF, VT, FF, CR, SP, NBSP\<close>
  "is_js_whitespace c = (of_char c \<in> {9, 10, 11, 12, 13, 32, 160 :: nat})"

definition is_line_terminator :: "char \<Rightarrow> bool" where
  \<comment> \<open>the characters a regular expression's \<open>.\<close> does not match: LF and CR\<close>
  "is_line_terminator c = (of_char c \<in> {10, 13 :: nat})"

definition js_trim :: "string \<Rightarrow> string" where
  "js_trim s = rev (dropWhile is_js_whitespace (rev (dropWhile is_js_whitespace s)))"

definition js_lower_char :: "char \<Rightarrow> char" where
  "js_lower_char c =
     (let n = (of_char c :: nat)
      in if (65 \<le> n \<and> n \<le> 90) \<or> (192 \<le> n \<and> n \<le> 222 \<and> n \<noteq> 215)
         then char_of (n + 32) else c)"

definition js_toLowerCase :: "string \<Rightarrow> string" where
  "js_toLowerCase s = map js_lower_char s"

definition js_slice0 :: "'a list \<Rightarrow> int \<Rightarrow> 'a list" where
  \<comment> \<open>\<open>xs.slice(0, e)\<close> for an integer \<open>e\<close>: a negative end counts from the back\<close>
  "js_slice0 xs e =
     (if e < 0 then take (nat (int (length xs) + e)) xs else take (nat e) xs)"

fun js_join :: "string \<Rightarrow> string list \<Rightarrow> string" where
  "js_join sep [] = []"
| "js_join sep [x] = x"
| "js_join sep (x # y # ys) = x @ sep @ js_join sep (y # ys)"

section \<open>Tool filter (tools.ts)\<close>

datatype regex_item = Lit char | DotStar

datatype CompiledPattern = All | Exact string | Regex "regex_item list"

record ToolsFilterConfig =
  include_patterns :: "string list option"
  exclude_patterns :: "string list option"
  minContentChars :: int
  tools_maxContentChars :: int

definition normalizePatterns :: "string list option \<Rightarrow> string list" where
  "normalizePatterns patterns =
     (case patterns of
        None \<Rightarrow> []
      | Some ps \<Rightarrow> filter (\<lambda>p. p \<noteq> []) (map (\<lambda>p. js_toLowerCase (js_trim p)) ps))"

definition glob_to_regex :: "string \<Rightarrow> regex_item list" where
  \<comment> \<open>every metacharacter is escaped, then each escaped \<open>*\<close> becomes \<open>.*\<close>: what is left
      is a literal per character and \<open>.*\<close> per star, anchored at both ends\<close>
  "glob_to_regex pattern = map (\<lambda>c. if c = CHR ''*'' then DotStar else Lit c) pattern"

fun regex_test :: "regex_item list \<Rightarrow> string \<Rightarrow> bool" where
  "regex_test [] s = (s = [])"
| "regex_test (Lit c # r) s =
     (case s of [] \<Rightarrow> False | d # s' \<Rightarrow> c = d \<and> regex_test r s')"
| "regex_test (DotStar # r) s =
     (regex_test r s \<or>
      (case s of [] \<Rightarrow> False
       | d # s' \<Rightarrow> \<not> is_line_terminator d \<and> regex_test (DotStar # r) s'))"

definition compilePattern :: "string \<Rightarrow> CompiledPattern" where
  "compilePattern pattern =
     (if pattern = ''*'' then All
      else if CHR ''*'' \<notin> set pattern then Exact pattern
      else Regex (glob_to_regex pattern))"

definition compilePatterns :: "string list option \<Rightarrow> CompiledPattern list" where
  "compilePatterns patterns = map compilePattern (normalizePatterns patterns)"

fun matchesLoop :: "string \<Rightarrow> CompiledPattern list \<Rightarrow> bool" where
  "matchesLoop normalized [] = False"
| "matchesLoop normalized (p # ps) =
     (case p of
        All \<Rightarrow> True
      | Exact v \<Rightarrow> if normalized = v then True else matchesLoop normalized ps
      | Regex re \<Rightarrow> if regex_test re normalized then True else matchesLoop normalized ps)"

definition matchesAny :: "string \<Rightarrow> CompiledPattern list \<Rightarrow> bool" where
  "matchesAny toolName patterns = matchesLoop (js_toLowerCase (js_trim toolName)) patterns"

definition makeToolFilterPredicate :: "'a ToolsFilterConfig_scheme \<Rightarrow> string \<Rightarrow> bool" where
  "makeToolFilterPredicate config toolName =
     (let denyPatterns = compilePatterns (exclude_patterns config);
          allowPatterns = compilePatterns (include_patterns config);
          normalized = js_toLowerCase (js_trim toolName)
      in if matchesAny normalized denyPatterns then False
         else if length allowPatterns = 0 then True
         else matchesAny normalized allowPatterns)"

definition pattern_accepts :: "string \<Rightarrow> string \<Rightarrow> bool" where
  \<comment> \<open>the normalized name is accepted by the matcher compiled from one normalized pattern\<close>
  "pattern_accepts normalized pattern =
     (case compilePattern pattern of
        All \<Rightarrow> True
      | Exact v \<Rightarrow> normalized = v
      | Regex re \<Rightarrow> regex_test re normalized)"

section \<open>JavaScript values\<close>

text \<open>
  A value of type \<open>unknown\<close>: what a configuration file or a tool call's \<open>input\<close> can
  hold. A finite number is a rational (every finite double is one; \<open>Math.floor\<close>,
  \<open>Math.max\<close> and \<open>Math.min\<close> are exact on them).
\<close>

datatype jsnum = Finite rat | NaN | PosInfinity | NegInfinity

datatype jsval =
    JUndefined
  | JNull
  | JBool bool
  | JNum jsnum
  | JStr string
  | JArr "jsval list"
  | JObj "(string \<times> jsval) list"

fun js_truthy :: "jsval \<Rightarrow> bool" where
  "js_truthy JUndefined = False"
| "js_truthy JNull = False"
| "js_truthy (JBool b) = b"
| "js_truthy (JNum (Finite r)) = (r \<noteq> 0)"
| "js_truthy (JNum NaN) = False"
| "js_truthy (JNum PosInfinity) = True"
| "js_truthy (JNum NegInfinity) = True"
| "js_truthy (JStr s) = (s \<noteq> [])"
| "js_truthy (JArr xs) = True"
| "js_truthy (JObj kvs) = True"

fun js_get :: "jsval \<Rightarrow> string \<Rightarrow> jsval" where
  \<comment> \<open>\<open>v.k\<close> for a key that no prototype defines; \<open>v\<close> is neither null nor undefined\<close>
  "js_get (JObj kvs) k = (case map_of kvs k of Some v \<Rightarrow> v | None \<Rightarrow> JUndefined)"
| "js_get v k = JUndefined"

fun digits_of_nat :: "nat \<Rightarrow> string" where
  "digits_of_nat n =
     (if n < 10 then [char_of (48 + n)]
      else digits_of_nat (n div 10) @ [char_of (48 + n mod 10)])"

definition js_string_of_int :: "int \<Rightarrow> string" where
  "js_string_of_int i = (if i < 0 then ''-'' @ digits_of_nat (nat (- i)) else digits_of_nat (nat i))"

section \<open>Summarizer (summarizer.ts)\<close>

subsection \<open>Data\<close>

datatype ContentBlock =
    TextContent (block_text: string)
  | ImageContent (data: string) (mimeType: string)

datatype SummarizationResult =
    Ok (summary: string) (truncated: bool) (cached: "bool option")
  | Failed (error: string)

text \<open>
  The configuration types of types.ts. Every number of an effective configuration is an
  integer but \<open>minScore\<close> (\<open>computeEffectiveSettings\<close> floors what it takes over, and the
  defaults are integers). Field names that several types share carry the type's prefix.
\<close>

record SummaryCacheConfig =
  cache_enabled :: bool
  maxEntries :: int
  ttlMs :: int

record SummaryBatchConfig =
  batch_enabled :: bool
  maxDelayMs :: int
  maxSize :: int
  minSize :: int

record SummaryConfig =
  maxChars :: int
  modelName :: "string option"
  timeoutMs :: int
  minContentForSummarization :: int
  cache :: "SummaryCacheConfig option"
  batch :: "SummaryBatchConfig option"

record SummarizeParams =
  toolName :: string
  input :: jsval
  content :: "ContentBlock list"
  isError :: bool

record GenerateOptions =
  opt_maxTokens :: int
  opt_maxChars :: int
  opt_timeoutMs :: int

text \<open>A call of the LLM client settles with a value or rejects (an error, a timeout).\<close>

datatype 'a settles = Resolves 'a | Rejects

record LLMClient =
  generate :: "string \<Rightarrow> GenerateOptions \<Rightarrow> string settles"
  generateBatch :: "(string list \<Rightarrow> GenerateOptions \<Rightarrow> string list settles) option"

text \<open>
  What the summarizer takes from the platform: the MD5 digest in hexadecimal
  (\<open>createHash("md5").update(s).digest("hex")\<close>) and \<open>JSON.stringify(v, null, 2)\<close>, which is
  \<open>None\<close> where it throws or yields \<open>undefined\<close>.
\<close>

record Platform =
  md5_hex :: "string \<Rightarrow> string"
  json_stringify :: "jsval \<Rightarrow> string option"

record CacheEntry =
  cached_summary :: string
  createdAt :: int
  cached_contentHash :: string

record PendingItem =
  params :: SummarizeParams
  contentText :: string
  contentHash :: string
  promise :: nat

text \<open>
  The module's state: the global \<open>summaryCache\<close> (a \<open>Map\<close>, which iterates in insertion
  order), \<open>pendingItems\<close> and \<open>batchTimer\<close>; the host's timer queue (\<open>timers\<close>: the handles
  that \<open>setTimeout\<close> armed and that have neither fired nor been cleared, each with the
  configuration and client its callback closes over); and the promises that were
  resolved (\<open>settled\<close>), by the number of the call that created them.
\<close>

record SummarizerState =
  summaryCache :: "(string \<times> CacheEntry) list"
  pendingItems :: "PendingItem list"
  batchTimer :: "nat option"
  timers :: "(nat \<times> SummaryConfig \<times> LLMClient) list"
  nextTimer :: nat
  settled :: "(nat \<times> SummarizationResult) list"

datatype summarize_outcome =
    Returned SummarizationResult  \<comment> \<open>the promise is fulfilled at once\<close>
  | Awaiting                      \<comment> \<open>the promise is fulfilled when a batch resolves it\<close>
  | Rejected                      \<comment> \<open>the call throws\<close>

subsection \<open>Map operations\<close>

definition map_delete :: "'k \<Rightarrow> ('k \<times> 'v) list \<Rightarrow> ('k \<times> 'v) list" where
  "map_delete k m = filter (\<lambda>kv. fst kv \<noteq> k) m"

fun map_set :: "'k \<Rightarrow> 'v \<Rightarrow> ('k \<times> 'v) list \<Rightarrow> ('k \<times> 'v) list" where
  \<comment> \<open>\<open>Map.prototype.set\<close>: a present key keeps its place, a new key goes last\<close>
  "map_set k v [] = [(k, v)]"
| "map_set k v (kv # m) = (if fst kv = k then (k, v) # m else kv # map_set k v m)"

subsection \<open>Helpers\<close>

definition extractTextContent :: "ContentBlock list \<Rightarrow> string" where
  "extractTextContent blocks = js_join [CHR 0x0A] (map block_text (filter is_TextContent blocks))"

definition safeStringify :: "Platform \<Rightarrow> jsval \<Rightarrow> int \<Rightarrow> string" where
  "safeStringify pf obj maxLength =
     (case json_stringify pf obj of
        None \<Rightarrow> ''[unable to stringify]''
      | Some str \<Rightarrow>
          if int (length str) \<le> maxLength then str else js_slice0 str maxLength @ ''...'')"

definition generateCacheKey :: "Platform \<Rightarrow> string \<Rightarrow> jsval \<Rightarrow> string \<Rightarrow> string" where
  "generateCacheKey pf name inp hash =
     (let inputJson = safeStringify pf inp 500;
          hashInput = name @ '':'' @ inputJson @ '':'' @ hash
      in js_slice0 (md5_hex pf hashInput) 32)"

definition hashContent :: "Platform \<Rightarrow> string \<Rightarrow> string" where
  "hashContent pf txt = js_slice0 (md5_hex pf txt) 16"

definition buildSummaryPrompt ::
  "Platform \<Rightarrow> SummarizeParams \<Rightarrow> string \<Rightarrow> int \<Rightarrow> string" where
  "buildSummaryPrompt pf p txt limit =
     (let inputJson = safeStringify pf (input p) 500; nl = [CHR 0x0A]
      in ''Summarize the following tool execution result in 1-2 concise sentences.'' @ nl
       @ nl
       @ ''## Tool Information'' @ nl
       @ ''- Name: '' @ toolName p @ nl
       @ ''- Input: '' @ inputJson @ nl
       @ ''- Status: '' @ (if isError p then ''ERROR'' else ''SUCCESS'') @ nl
       @ nl
       @ ''## Result (first 2000 chars)'' @ nl
       @ ''```'' @ nl
       @ js_slice0 txt 2000 @ nl
       @ ''```'' @ nl
       @ nl
       @ ''## Instructions'' @ nl
       @ ''Provide a brief summary (max '' @ js_string_of_int limit
       @ '' characters) that captures:'' @ nl
       @ ''1. What the tool did'' @ nl
       @ ''2. Key findings, outcomes, or errors'' @ nl
       @ nl
       @ ''Write the summary directly, without any preamble or explanation.'' @ nl
       @ nl
       @ ''Summary:'')"

definition generate_options :: "SummaryConfig \<Rightarrow> GenerateOptions" where
  "generate_options config =
     \<lparr>opt_maxTokens = maxChars config * 2, opt_maxChars = maxChars config,
      opt_timeoutMs = timeoutMs config\<rparr>"

definition truncation_fallback :: "SummaryConfig \<Rightarrow> string \<Rightarrow> SummarizationResult" where
  \<comment> \<open>\<open>{ ok: true, summary: contentText.slice(0, config.maxChars) + "...", truncated: true }\<close>\<close>
  "truncation_fallback config txt = Ok (js_slice0 txt (maxChars config) @ ''...'') True None"

subsection \<open>The cache\<close>

definition checkCache ::
  "string \<Rightarrow> SummaryCacheConfig \<Rightarrow> int \<Rightarrow> (string \<times> CacheEntry) list
   \<Rightarrow> (string \<times> bool) option \<times> (string \<times> CacheEntry) list" where
  \<comment> \<open>the summary and the \<open>expired\<close> flag, or \<open>None\<close> for null; and the cache afterwards\<close>
  "checkCache key config now m =
     (if \<not> cache_enabled config then (None, m)
      else case map_of m key of
        None \<Rightarrow> (None, m)
      | Some entry \<Rightarrow>
          if ttlMs config > 0 \<and> now - createdAt entry > ttlMs config
          then (Some (cached_summary entry, True), map_delete key m)
          else (Some (cached_summary entry, False), m))"

definition storeInCache ::
  "string \<Rightarrow> string \<Rightarrow> string \<Rightarrow> SummaryCacheConfig \<Rightarrow> int
   \<Rightarrow> (string \<times> CacheEntry) list \<Rightarrow> (string \<times> CacheEntry) list" where
  "storeInCache key hash s config now m =
     (if \<not> cache_enabled config then m
      else
        let m1 = (if int (length m) \<ge> maxEntries config
                  then (case m of
                          [] \<Rightarrow> m
                        | (oldestKey, _) # _ \<Rightarrow>
                            if oldestKey \<noteq> [] then map_delete oldestKey m else m)
                  else m)
        in map_set key \<lparr>cached_summary = s, createdAt = now, cached_contentHash = hash\<rparr> m1)"

subsection \<open>Batches\<close>

text \<open>
  A batch is processed in one step: \<open>processBatch\<close> runs from the swap of \<open>pendingItems\<close>
  to the last \<open>resolve\<close> with the LLM's answer at hand, so the calls that could arrive
  while it awaits the LLM are not interleaved with it.
\<close>

definition resolve :: "nat \<Rightarrow> SummarizationResult \<Rightarrow> SummarizerState \<Rightarrow> SummarizerState" where
  \<comment> \<open>a promise keeps the first value it is resolved with\<close>
  "resolve p r st =
     (if p \<in> fst ` set (settled st) then st else st\<lparr>settled := settled st @ [(p, r)]\<rparr>)"

fun checkItems ::
  "Platform \<Rightarrow> SummaryCacheConfig \<Rightarrow> int \<Rightarrow> PendingItem list \<Rightarrow> SummarizerState
   \<Rightarrow> PendingItem list \<times> SummarizerState" where
  \<comment> \<open>the first loop of \<open>processBatch\<close>: the items the cache does not answer, in order\<close>
  "checkItems pf cc now [] st = ([], st)"
| "checkItems pf cc now (item # items) st =
     (let cacheKey = generateCacheKey pf (toolName (params item)) (input (params item))
                       (contentHash item);
          (hit, m) = checkCache cacheKey cc now (summaryCache st);
          st1 = st\<lparr>summaryCache := m\<rparr>
      in case hit of
           Some (s, False) \<Rightarrow>
             checkItems pf cc now items (resolve (promise item) (Ok s True (Some True)) st1)
         | _ \<Rightarrow>
             (let (uncached, st2) = checkItems pf cc now items st1
              in (item # uncached, st2)))"

fun generateAll :: "LLMClient \<Rightarrow> GenerateOptions \<Rightarrow> string list \<Rightarrow> string list settles" where
  \<comment> \<open>\<open>Promise.all\<close> over one \<open>generate\<close> call per prompt\<close>
  "generateAll llm opts [] = Resolves []"
| "generateAll llm opts (prompt # prompts) =
     (case generate llm prompt opts of
        Rejects \<Rightarrow> Rejects
      | Resolves s \<Rightarrow>
          (case generateAll llm opts prompts of
             Rejects \<Rightarrow> Rejects
           | Resolves ss \<Rightarrow> Resolves (s # ss)))"

fun fallbackAll :: "SummaryConfig \<Rightarrow> PendingItem list \<Rightarrow> SummarizerState \<Rightarrow> SummarizerState" where
  "fallbackAll config [] st = st"
| "fallbackAll config (item # items) st =
     fallbackAll config items
       (resolve (promise item) (truncation_fallback config (contentText item)) st)"

fun processResults ::
  "Platform \<Rightarrow> SummaryConfig \<Rightarrow> SummaryCacheConfig \<Rightarrow> int \<Rightarrow> string list \<Rightarrow> nat
   \<Rightarrow> PendingItem list \<Rightarrow> SummarizerState \<Rightarrow> SummarizerState" where
  \<comment> \<open>the loop over \<open>uncachedItems\<close>, from index \<open>i\<close>\<close>
  "processResults pf config cc done summaries i [] st = st"
| "processResults pf config cc done summaries i (item # items) st =
     (let s = (if i < length summaries then js_trim (summaries ! i) else [])
      in if s = [] then
           processResults pf config cc done summaries (Suc i) items
             (resolve (promise item) (truncation_fallback config (contentText item)) st)
         else
           (let finalSummary = js_slice0 s (maxChars config);
                cacheKey = generateCacheKey pf (toolName (params item)) (input (params item))
                             (contentHash item);
                st1 = st\<lparr>summaryCache :=
                        storeInCache cacheKey (contentHash item) finalSummary cc done
                          (summaryCache st)\<rparr>
            in processResults pf config cc done summaries (Suc i) items
                 (resolve (promise item) (Ok finalSummary True (Some False)) st1)))"

definition processBatch ::
  "Platform \<Rightarrow> SummaryConfig \<Rightarrow> LLMClient \<Rightarrow> int \<Rightarrow> int \<Rightarrow> SummarizerState \<Rightarrow> SummarizerState" where
  \<comment> \<open>\<open>now\<close> is the clock when the batch starts, \<open>done\<close> the clock when the LLM has answered.
      With no \<open>cache\<close> group the first \<open>checkCache\<close> throws: the items are dropped unresolved.\<close>
  "processBatch pf config llm now done st =
     (let items = pendingItems st; st0 = st\<lparr>pendingItems := []\<rparr>
      in if items = [] then st0
         else case cache config of
           None \<Rightarrow> st0
         | Some cc \<Rightarrow>
             (let (uncachedItems, st1) = checkItems pf cc now items st0
              in if uncachedItems = [] then st1
                 else
                   (let prompts = map (\<lambda>item. buildSummaryPrompt pf (params item)
                                      (contentText item) (maxChars config)) uncachedItems;
                        reply = (case generateBatch llm of
                                   Some batchFn \<Rightarrow>
                                     if length uncachedItems > 1
                                     then batchFn prompts (generate_options config)
                                     else generateAll llm (generate_options config) prompts
                                 | None \<Rightarrow> generateAll llm (generate_options config) prompts)
                    in case reply of
                         Rejects \<Rightarrow> fallbackAll config uncachedItems st1
                       | Resolves summaries \<Rightarrow>
                           processResults pf config cc done summaries 0 uncachedItems st1)))"

definition clearTimeout :: "nat \<Rightarrow> SummarizerState \<Rightarrow> SummarizerState" where
  "clearTimeout h st = st\<lparr>timers := map_delete h (timers st)\<rparr>"


definition scheduleBatch ::
  "Platform \<Rightarrow> SummaryConfig \<Rightarrow> LLMClient \<Rightarrow> int \<Rightarrow> int \<Rightarrow> SummarizerState \<Rightarrow> SummarizerState" where
  \<comment> \<open>called only where \<open>config.batch?.enabled\<close> holds, so \<open>config.batch!\<close> is there\<close>
  "scheduleBatch pf config llm now done st =
     (case batch config of
        None \<Rightarrow> st
      | Some batchConfig \<Rightarrow>
          if int (length (pendingItems st)) \<ge> maxSize batchConfig
          then processBatch pf config llm now done st
          else if batchTimer st = None
          then st\<lparr>batchTimer := Some (nextTimer st),
                  timers := timers st @ [(nextTimer st, config, llm)],
                  nextTimer := Suc (nextTimer st)\<rparr>
          else st)"

definition timerFires ::
  "Platform \<Rightarrow> nat \<Rightarrow> int \<Rightarrow> int \<Rightarrow> SummarizerState \<Rightarrow> SummarizerState" where
  \<comment> \<open>the host runs the callback of an armed timer: \<open>() => { void processBatch(config, llmClient) }\<close>\<close>
  "timerFires pf h now done st =
     (case map_of (timers st) h of
        None \<Rightarrow> st
      | Some (config, llm) \<Rightarrow> processBatch pf config llm now done (clearTimeout h st))"

subsection \<open>summarize\<close>

definition summarize ::
  "Platform \<Rightarrow> SummaryConfig \<Rightarrow> LLMClient \<Rightarrow> int \<Rightarrow> int \<Rightarrow> nat \<Rightarrow> SummarizeParams
   \<Rightarrow> SummarizerState \<Rightarrow> summarize_outcome \<times> SummarizerState" where
  \<comment> \<open>\<open>now\<close> is the clock at the call, \<open>done\<close> the clock when the LLM has answered, \<open>p\<close> the
      number of the promise the call returns\<close>
  "summarize pf config llm now done p ps st =
     (let txt = extractTextContent (content ps);
          contentLength = int (length txt);
          hash = hashContent pf txt
      in if contentLength \<le> maxChars config then (Returned (Ok txt False None), st)
         else if contentLength \<le> minContentForSummarization config
         then (Returned (truncation_fallback config txt), st)
         else case cache config of
           None \<Rightarrow> (Rejected, st)
         | Some cc \<Rightarrow>
             (let cacheKey = generateCacheKey pf (toolName ps) (input ps) hash;
                  (hit, m) = checkCache cacheKey cc now (summaryCache st);
                  st1 = st\<lparr>summaryCache := m\<rparr>
              in case hit of
                   Some (s, False) \<Rightarrow> (Returned (Ok s True (Some True)), st1)
                 | _ \<Rightarrow>
                     if (case batch config of Some b \<Rightarrow> batch_enabled b | None \<Rightarrow> False)
                     then
                       (Awaiting,
                        scheduleBatch pf config llm now done
                          (st1\<lparr>pendingItems := pendingItems st1 @
                             [\<lparr>params = ps, contentText = txt, contentHash = hash,
                               promise = p\<rparr>]\<rparr>))
                     else
                       (case generate llm (buildSummaryPrompt pf ps txt (maxChars config))
                               (generate_options config) of
                          Rejects \<Rightarrow> (Returned (truncation_fallback config txt), st1)
                        | Resolves s \<Rightarrow>
                            if s = [] \<or> length (js_trim s) = 0
                            then (Returned (truncation_fallback config txt), st1)
                            else
                              (let finalSummary = js_slice0 (js_trim s) (maxChars config)
                               in (Returned (Ok finalSummary True (Some False)),
                                   st1\<lparr>summaryCache :=
                                     storeInCache cacheKey hash finalSummary cc done
                                       (summaryCache st1)\<rparr>)))))"

subsection \<open>Awaiting a call\<close>


section \<open>Settings (settings.ts)\<close>

record StorageConfig =
  dbPath :: string
  storage_maxResults :: int
  ttlDays :: int
  embeddingBatchSize :: int
  storage_maxContentChars :: int

record RetrievalConfig =
  maxResults :: int
  minScore :: rat
  injectFullContent :: bool
  maxFullContentChars :: int
  crossSessionSearch :: bool

text \<open>
  \<open>mode\<close> holds whatever truthy value the user wrote: \<open>computeEffectiveSettings\<close> copies
  it unchecked.
\<close>

record ToolResultSummaryConfig =
  enabled :: bool
  mode :: jsval
  summary_group :: SummaryConfig
  storage :: StorageConfig
  retrieval :: RetrievalConfig
  tools :: ToolsFilterConfig

definition DEFAULT_SUMMARY_CONFIG :: SummaryConfig where
  "DEFAULT_SUMMARY_CONFIG =
     \<lparr>maxChars = 200, modelName = None, timeoutMs = 10000, minContentForSummarization = 500,
      cache = Some \<lparr>cache_enabled = True, maxEntries = 1000,
                    ttlMs = 7 * 24 * 60 * 60 * 1000\<rparr>,
      batch = Some \<lparr>batch_enabled = True, maxDelayMs = 2000, maxSize = 10, minSize = 1\<rparr>\<rparr>"

definition DEFAULT_STORAGE_CONFIG :: StorageConfig where
  "DEFAULT_STORAGE_CONFIG =
     \<lparr>dbPath = ''tool-results'', storage_maxResults = 10000, ttlDays = 30,
      embeddingBatchSize = 100, storage_maxContentChars = 50000\<rparr>"

definition DEFAULT_RETRIEVAL_CONFIG :: RetrievalConfig where
  "DEFAULT_RETRIEVAL_CONFIG =
     \<lparr>maxResults = 5, minScore = 1 / 2, injectFullContent = False,
      maxFullContentChars = 2000, crossSessionSearch = False\<rparr>"

definition DEFAULT_TOOLS_FILTER_CONFIG :: ToolsFilterConfig where
  "DEFAULT_TOOLS_FILTER_CONFIG =
     \<lparr>include_patterns = None, exclude_patterns = Some [''tts_*'', ''notify_*'', ''memory_*''],
      minContentChars = 200, tools_maxContentChars = 50000\<rparr>"

definition DEFAULT_TOOL_RESULT_SUMMARY_CONFIG :: ToolResultSummaryConfig where
  "DEFAULT_TOOL_RESULT_SUMMARY_CONFIG =
     \<lparr>enabled = False, mode = JStr ''full'', summary_group = DEFAULT_SUMMARY_CONFIG,
      storage = DEFAULT_STORAGE_CONFIG, retrieval = DEFAULT_RETRIEVAL_CONFIG,
      tools = DEFAULT_TOOLS_FILTER_CONFIG\<rparr>"

definition finite_number :: "jsval \<Rightarrow> rat option" where
  \<comment> \<open>\<open>typeof v === "number" && Number.isFinite(v)\<close>\<close>
  "finite_number v = (case v of JNum (Finite r) \<Rightarrow> Some r | _ \<Rightarrow> None)"

definition boolean_of :: "jsval \<Rightarrow> bool option" where
  \<comment> \<open>\<open>typeof v === "boolean"\<close>\<close>
  "boolean_of v = (case v of JBool b \<Rightarrow> Some b | _ \<Rightarrow> None)"

definition nonblank_string :: "jsval \<Rightarrow> string option" where
  \<comment> \<open>\<open>typeof v === "string" && v.trim()\<close>\<close>
  "nonblank_string v = (case v of JStr s \<Rightarrow> if js_trim s \<noteq> [] then Some s else None | _ \<Rightarrow> None)"

definition mergeSummaryCacheConfig :: "SummaryCacheConfig \<Rightarrow> jsval \<Rightarrow> SummaryCacheConfig" where
  "mergeSummaryCacheConfig base override =
     (let r1 = (case boolean_of (js_get override ''enabled'') of
                  Some b \<Rightarrow> base\<lparr>cache_enabled := b\<rparr> | None \<Rightarrow> base);
          r2 = (case finite_number (js_get override ''maxEntries'') of
                  Some x \<Rightarrow> r1\<lparr>maxEntries := max 10 \<lfloor>x\<rfloor>\<rparr> | None \<Rightarrow> r1);
          r3 = (case finite_number (js_get override ''ttlMs'') of
                  Some x \<Rightarrow> r2\<lparr>ttlMs := max 0 \<lfloor>x\<rfloor>\<rparr> | None \<Rightarrow> r2)
      in r3)"

definition mergeSummaryBatchConfig :: "SummaryBatchConfig \<Rightarrow> jsval \<Rightarrow> SummaryBatchConfig" where
  "mergeSummaryBatchConfig base override =
     (let r1 = (case boolean_of (js_get override ''enabled'') of
                  Some b \<Rightarrow> base\<lparr>batch_enabled := b\<rparr> | None \<Rightarrow> base);
          r2 = (case finite_number (js_get override ''maxDelayMs'') of
                  Some x \<Rightarrow> r1\<lparr>maxDelayMs := max 100 \<lfloor>x\<rfloor>\<rparr> | None \<Rightarrow> r1);
          r3 = (case finite_number (js_get override ''maxSize'') of
                  Some x \<Rightarrow> r2\<lparr>maxSize := max 1 (min 50 \<lfloor>x\<rfloor>)\<rparr> | None \<Rightarrow> r2);
          r4 = (case finite_number (js_get override ''minSize'') of
                  Some x \<Rightarrow> r3\<lparr>minSize := max 1 \<lfloor>x\<rfloor>\<rparr> | None \<Rightarrow> r3)
      in r4)"

definition mergeSummaryConfig :: "SummaryConfig \<Rightarrow> jsval \<Rightarrow> SummaryConfig" where
  \<comment> \<open>\<open>base\<close> is the default group, whose \<open>cache\<close> and \<open>batch\<close> are there
      (\<open>base.cache!\<close>, \<open>base.batch!\<close>)\<close>
  "mergeSummaryConfig base override =
     (let r1 = (case finite_number (js_get override ''maxChars'') of
                  Some x \<Rightarrow> base\<lparr>maxChars := max 50 \<lfloor>x\<rfloor>\<rparr> | None \<Rightarrow> base);
          r2 = (case finite_number (js_get override ''timeoutMs'') of
                  Some x \<Rightarrow> r1\<lparr>timeoutMs := max 1000 \<lfloor>x\<rfloor>\<rparr> | None \<Rightarrow> r1);
          r3 = (case nonblank_string (js_get override ''modelName'') of
                  Some s \<Rightarrow> r2\<lparr>modelName := Some (js_trim s)\<rparr> | None \<Rightarrow> r2);
          r4 = (case finite_number (js_get override ''minContentForSummarization'') of
                  Some x \<Rightarrow> r3\<lparr>minContentForSummarization := max 0 \<lfloor>x\<rfloor>\<rparr>
                | None \<Rightarrow> r3);
          r5 = (if js_truthy (js_get override ''cache'')
                then (case cache base of
                        Some bc \<Rightarrow>
                          r4\<lparr>cache := Some (mergeSummaryCacheConfig bc (js_get override ''cache''))\<rparr>
                      | None \<Rightarrow> r4)
                else r4);
          r6 = (if js_truthy (js_get override ''batch'')
                then (case batch base of
                        Some bb \<Rightarrow>
                          r5\<lparr>batch := Some (mergeSummaryBatchConfig bb (js_get override ''batch''))\<rparr>
                      | None \<Rightarrow> r5)
                else r5)
      in r6)"

definition mergeStorageConfig :: "StorageConfig \<Rightarrow> jsval \<Rightarrow> StorageConfig" where
  "mergeStorageConfig base override =
     (let r1 = (case nonblank_string (js_get override ''dbPath'') of
                  Some s \<Rightarrow> base\<lparr>dbPath := js_trim s\<rparr> | None \<Rightarrow> base);
          r2 = (case finite_number (js_get override ''maxResults'') of
                  Some x \<Rightarrow> r1\<lparr>storage_maxResults := max 100 \<lfloor>x\<rfloor>\<rparr> | None \<Rightarrow> r1);
          r3 = (case finite_number (js_get override ''ttlDays'') of
                  Some x \<Rightarrow> r2\<lparr>ttlDays := max 0 \<lfloor>x\<rfloor>\<rparr> | None \<Rightarrow> r2);
          r4 = (case finite_number (js_get override ''embeddingBatchSize'') of
                  Some x \<Rightarrow> r3\<lparr>embeddingBatchSize := max 1 \<lfloor>x\<rfloor>\<rparr> | None \<Rightarrow> r3);
          r5 = (case finite_number (js_get override ''maxContentChars'') of
                  Some x \<Rightarrow> r4\<lparr>storage_maxContentChars := max 1000 \<lfloor>x\<rfloor>\<rparr>
                | None \<Rightarrow> r4)
      in r5)"

definition mergeRetrievalConfig :: "RetrievalConfig \<Rightarrow> jsval \<Rightarrow> RetrievalConfig" where
  "mergeRetrievalConfig base override =
     (let r1 = (case finite_number (js_get override ''maxResults'') of
                  Some x \<Rightarrow> base\<lparr>maxResults := max 1 (min 20 \<lfloor>x\<rfloor>)\<rparr> | None \<Rightarrow> base);
          r2 = (case finite_number (js_get override ''minScore'') of
                  Some x \<Rightarrow> r1\<lparr>minScore := max 0 (min 1 x)\<rparr> | None \<Rightarrow> r1);
          r3 = (case boolean_of (js_get override ''injectFullContent'') of
                  Some b \<Rightarrow> r2\<lparr>injectFullContent := b\<rparr> | None \<Rightarrow> r2);
          r4 = (case finite_number (js_get override ''maxFullContentChars'') of
                  Some x \<Rightarrow> r3\<lparr>maxFullContentChars := max 100 \<lfloor>x\<rfloor>\<rparr> | None \<Rightarrow> r3);
          r5 = (case boolean_of (js_get override ''crossSessionSearch'') of
                  Some b \<Rightarrow> r4\<lparr>crossSessionSearch := b\<rparr> | None \<Rightarrow> r4)
      in r5)"

definition pattern_strings :: "jsval list \<Rightarrow> string list" where
  \<comment> \<open>\<open>xs.filter((p) => typeof p === "string" && p.trim())\<close>\<close>
  "pattern_strings xs = List.map_filter nonblank_string xs"

definition mergeToolsFilterConfig :: "ToolsFilterConfig \<Rightarrow> jsval \<Rightarrow> ToolsFilterConfig" where
  "mergeToolsFilterConfig base override =
     (let r1 = (case js_get override ''include'' of
                  JArr xs \<Rightarrow> base\<lparr>include_patterns := Some (pattern_strings xs)\<rparr> | _ \<Rightarrow> base);
          r2 = (case js_get override ''exclude'' of
                  JArr xs \<Rightarrow> r1\<lparr>exclude_patterns := Some (pattern_strings xs)\<rparr> | _ \<Rightarrow> r1);
          r3 = (case finite_number (js_get override ''minContentChars'') of
                  Some x \<Rightarrow> r2\<lparr>minContentChars := max 0 \<lfloor>x\<rfloor>\<rparr> | None \<Rightarrow> r2);
          r4 = (case finite_number (js_get override ''maxContentChars'') of
                  Some x \<Rightarrow> r3\<lparr>tools_maxContentChars := max 1000 \<lfloor>x\<rfloor>\<rparr> | None \<Rightarrow> r3)
      in r4)"

definition is_js_object :: "jsval \<Rightarrow> bool" where
  \<comment> \<open>\<open>raw && typeof raw === "object"\<close>\<close>
  "is_js_object v = (case v of JArr xs \<Rightarrow> True | JObj kvs \<Rightarrow> True | _ \<Rightarrow> False)"

definition computeEffectiveSettings :: "jsval \<Rightarrow> ToolResultSummaryConfig option" where
  "computeEffectiveSettings raw =
     (if \<not> is_js_object raw then None
      else if js_get raw ''enabled'' = JBool False \<or> js_get raw ''mode'' = JStr ''off'' then None
      else
        (let r0 = DEFAULT_TOOL_RESULT_SUMMARY_CONFIG;
             r1 = (case boolean_of (js_get raw ''enabled'') of
                     Some b \<Rightarrow> r0\<lparr>enabled := b\<rparr> | None \<Rightarrow> r0);
             r2 = (if js_truthy (js_get raw ''mode'') then r1\<lparr>mode := js_get raw ''mode''\<rparr> else r1);
             r3 = (if js_truthy (js_get raw ''summary'')
                   then r2\<lparr>summary_group :=
                           mergeSummaryConfig (summary_group r2) (js_get raw ''summary'')\<rparr>
                   else r2);
             r4 = (if js_truthy (js_get raw ''storage'')
                   then r3\<lparr>storage := mergeStorageConfig (storage r3) (js_get raw ''storage'')\<rparr>
                   else r3);
             r5 = (if js_truthy (js_get raw ''retrieval'')
                   then r4\<lparr>retrieval :=
                           mergeRetrievalConfig (retrieval r4) (js_get raw ''retrieval'')\<rparr>
                   else r4);
             r6 = (if js_truthy (js_get raw ''tools'')
                   then r5\<lparr>tools := mergeToolsFilterConfig (tools r5) (js_get raw ''tools'')\<rparr>
                   else r5)
         in Some r6))"

section \<open>Store (store.ts)\<close>

record ToolResultEntry =
  entry_id :: string
  sessionId :: string
  toolCallId :: string
  entry_toolName :: string
  entry_input :: jsval
  entry_summary :: string
  originalContent :: "ContentBlock list"
  entry_isError :: bool
  details :: jsval
  vector :: "rat list option"
  entry_createdAt :: int
  accessCount :: int
  lastAccessAt :: int

record ToolResultSearchResult =
  result_entry :: ToolResultEntry
  score :: rat

text \<open>
  A row as the table's vector search returns it: the entry \<open>rowToEntry\<close> decodes, and the
  row's \<open>_distance\<close> (an L2 distance, so not negative) where it has one.
\<close>

record Row =
  row_entry :: ToolResultEntry
  row_distance :: "rat option"

record SearchOptions =
  opt_limit :: int
  opt_minScore :: rat
  opt_sessionId :: "string option"
  opt_crossSession :: "bool option"

definition distance_of :: "Row \<Rightarrow> rat" where
  \<comment> \<open>\<open>row._distance ?? 0\<close>\<close>
  "distance_of row = (case row_distance row of Some d \<Rightarrow> d | None \<Rightarrow> 0)"

fun mapRows :: "SearchOptions \<Rightarrow> Row list \<Rightarrow> ToolResultSearchResult list" where
  \<comment> \<open>the loop of \<open>search\<close>; the quotient is exact here where JavaScript rounds to a double
      (and yields \<open>Infinity\<close> for the distance \<open>-1\<close>, which no L2 distance is)\<close>
  "mapRows options [] = []"
| "mapRows options (row # rows) =
     (let entry = row_entry row
      in if \<not> (opt_crossSession options = Some True)
            \<and> (case opt_sessionId options of Some s \<Rightarrow> s \<noteq> [] | None \<Rightarrow> False)
            \<and> Some (sessionId entry) \<noteq> opt_sessionId options
         then mapRows options rows
         else
           (let distance = distance_of row;
                sc = 1 / (1 + distance)
            in if sc \<ge> opt_minScore options
               then \<lparr>result_entry = entry, score = sc\<rparr> # mapRows options rows
               else mapRows options rows))"

text \<open>
  \<open>vectorSearch query n\<close> stands for \<open>ensureInitialized()\<close>, \<open>embeddings.embedQuery(query)\<close>
  and \<open>table.vectorSearch(queryVector).limit(n).toArray()\<close>: the rows, or a rejection.
\<close>

definition search ::
  "(string \<Rightarrow> int \<Rightarrow> Row list settles) \<Rightarrow> string \<Rightarrow> SearchOptions
   \<Rightarrow> ToolResultSearchResult list settles" where
  "search vectorSearch query options =
     (case vectorSearch query (opt_limit options * 2) of
        Rejects \<Rightarrow> Rejects
      | Resolves results \<Rightarrow> Resolves (js_slice0 (mapRows options results) (opt_limit options)))"

section \<open>Retriever (retriever.ts)\<close>

text \<open>
  \<open>createRetriever\<close> and \<open>buildSearchQuery\<close> are those of the sibling extension's
  retriever.ts (the file the summary extension imports is the same code).
  \<open>formatResultsForContext\<close> is a parameter \<open>fmt\<close> of what follows: no property below
  depends on the text it renders.
\<close>

record FormattedRetrievalResult =
  contextBlock :: string
  count :: nat
  results :: "ToolResultSearchResult list"

definition retrieve ::
  "RetrievalConfig \<Rightarrow> (string \<Rightarrow> int \<Rightarrow> Row list settles) \<Rightarrow> string \<Rightarrow> string option
   \<Rightarrow> ToolResultSearchResult list settles" where
  "retrieve config vectorSearch query sid =
     search vectorSearch query
       \<lparr>opt_limit = maxResults config, opt_minScore = minScore config, opt_sessionId = sid,
        opt_crossSession = Some (crossSessionSearch config)\<rparr>"

definition retrieveAndFormat ::
  "(ToolResultSearchResult list \<Rightarrow> bool \<Rightarrow> int \<Rightarrow> string) \<Rightarrow> RetrievalConfig
   \<Rightarrow> (string \<Rightarrow> int \<Rightarrow> Row list settles) \<Rightarrow> string \<Rightarrow> string option
   \<Rightarrow> FormattedRetrievalResult settles" where
  "retrieveAndFormat fmt config vectorSearch query sid =
     (case retrieve config vectorSearch query sid of
        Rejects \<Rightarrow> Rejects
      | Resolves rs \<Rightarrow>
          if length rs = 0 then Resolves \<lparr>contextBlock = [], count = 0, results = []\<rparr>
          else Resolves
                 \<lparr>contextBlock = fmt rs (injectFullContent config) (maxFullContentChars config),
                  count = length rs, results = rs\<rparr>)"

definition buildSearchQuery :: "string \<Rightarrow> string" where
  \<comment> \<open>\<open>buildSearchQuery({ prompt })\<close>, the one call the extension makes: no recent tool calls\<close>
  "buildSearchQuery prompt = js_trim prompt"

section \<open>Runtime state (runtime.ts)\<close>

record SessionManager =
  handle :: nat  \<comment> \<open>the object's identity, the key of the \<open>WeakMap\<close>\<close>
  sm_sessionId :: "string option"
  sm_sessionFile :: "string option"

text \<open>
  \<open>ToolResultSummaryRuntime\<close> and its extension \<open>ToolResultSummaryRuntimeValue\<close>: \<open>config\<close> is
  \<open>None\<close> for an object without that key.
\<close>

record Runtime =
  initialized :: bool
  initError :: "string option"
  entryCount :: int
  lastCleanupAt :: "int option"
  compactionOccurred :: bool
  config :: "ToolResultSummaryConfig option"
  resolvedDbPath :: "string option"
  openClawConfig :: jsval

type_synonym registry = "nat \<Rightarrow> Runtime option"

definition createDefaultRuntime :: Runtime where
  "createDefaultRuntime =
     \<lparr>initialized = False, initError = None, entryCount = 0, lastCleanupAt = None,
      compactionOccurred = False, config = None, resolvedDbPath = None,
      openClawConfig = JUndefined\<rparr>"

definition setToolResultSummaryRuntime ::
  "registry \<Rightarrow> SessionManager \<Rightarrow> Runtime option \<Rightarrow> registry" where
  "setToolResultSummaryRuntime reg sm v = reg(handle sm := v)"

definition getToolResultSummaryRuntime :: "registry \<Rightarrow> SessionManager \<Rightarrow> Runtime" where
  "getToolResultSummaryRuntime reg sm =
     (case reg (handle sm) of Some r \<Rightarrow> r | None \<Rightarrow> createDefaultRuntime)"

definition updateToolResultSummaryRuntime ::
  "registry \<Rightarrow> SessionManager \<Rightarrow> (Runtime \<Rightarrow> Runtime) \<Rightarrow> registry" where
  \<comment> \<open>\<open>updates\<close> is the function that writes the fields of the partial object\<close>
  "updateToolResultSummaryRuntime reg sm updates =
     reg(handle sm \<mapsto> updates (getToolResultSummaryRuntime reg sm))"

section \<open>Extension (extension.ts, extensions.ts)\<close>

definition buildToolResultSummaryExtension :: "registry \<Rightarrow> SessionManager \<Rightarrow> jsval \<Rightarrow> jsval \<Rightarrow> registry" where
  \<comment> \<open>\<open>raw\<close> is \<open>cfg?.agents?.defaults?.toolResultSummary\<close>, \<open>cfg\<close> the whole configuration\<close>
  "buildToolResultSummaryExtension reg sm cfg raw =
     (if \<not> js_truthy raw then reg
      else case computeEffectiveSettings raw of
        None \<Rightarrow> reg
      | Some c \<Rightarrow>
          if \<not> enabled c then reg
          else setToolResultSummaryRuntime reg sm
                 (Some \<lparr>initialized = False, initError = None, entryCount = 0,
                        lastCleanupAt = None, compactionOccurred = False, config = Some c,
                        resolvedDbPath = None, openClawConfig = cfg\<rparr>))"

datatype MessageContent =
    StringContent string
  | BlocksContent "ContentBlock list"
  | OtherContent

record Message =
  role :: string
  msg_content :: MessageContent
  msg_toolCallId :: "string option"

text \<open>
  Message objects live in a heap (a list: an address is an index) and a message list is a
  list of addresses, so that \<open>m === lastUserMessage\<close> is the comparison of two addresses
  and a new object is a new address. The code never writes to an object it was given: a
  spread \<open>{ ...m, content: c }\<close> allocates.
\<close>

record Services =
  vectorSearch :: "string \<Rightarrow> int \<Rightarrow> Row list settles"

record ToolResultEvent =
  ev_toolName :: string
  ev_toolCallId :: string
  ev_input :: jsval
  ev_content :: "ContentBlock list"
  ev_isError :: bool
  ev_details :: jsval

fun estimateContentLength :: "ContentBlock list \<Rightarrow> int" where
  "estimateContentLength [] = 0"
| "estimateContentLength (TextContent t # blocks) = int (length t) + estimateContentLength blocks"
| "estimateContentLength (ImageContent d m # blocks) = 1000 + estimateContentLength blocks"

definition getRuntime :: "registry \<Rightarrow> SessionManager \<Rightarrow> Runtime option" where
  "getRuntime reg sm =
     (let runtime = getToolResultSummaryRuntime reg sm
      in if config runtime = None then None else Some runtime)"

definition session_of_file :: "string \<Rightarrow> string" where
  \<comment> \<open>the last segment of the path (split at \<open>/\<close> and \<open>\\<close>), without a final \<open>.json\<close>\<close>
  "session_of_file f =
     (let fileName = rev (takeWhile (\<lambda>c. c \<noteq> CHR ''/'' \<and> c \<noteq> CHR 0x5C) (rev f))
      in if length fileName \<ge> 5 \<and> drop (length fileName - 5) fileName = ''.json''
         then take (length fileName - 5) fileName else fileName)"

definition getSessionId :: "SessionManager \<Rightarrow> string" where
  "getSessionId sm =
     (if (case sm_sessionId sm of Some s \<Rightarrow> s \<noteq> [] | None \<Rightarrow> False)
      then the (sm_sessionId sm)
      else if (case sm_sessionFile sm of Some f \<Rightarrow> f \<noteq> [] | None \<Rightarrow> False)
      then session_of_file (the (sm_sessionFile sm))
      else ''default'')"

definition collectExistingToolCallIds :: "'a Message_scheme list \<Rightarrow> nat list \<Rightarrow> string list" where
  "collectExistingToolCallIds heap messages =
     List.map_filter
       (\<lambda>m. if role (heap ! m) = ''toolResult''
            then (case msg_toolCallId (heap ! m) of
                    Some i \<Rightarrow> if i \<noteq> [] then Some i else None
                  | None \<Rightarrow> None)
            else None)
       messages"

definition getUserMessageText :: "'a Message_scheme \<Rightarrow> string" where
  "getUserMessageText message =
     (case msg_content message of
        StringContent s \<Rightarrow> s
      | BlocksContent bs \<Rightarrow> js_join [CHR 0x0A] (map block_text (filter is_TextContent bs))
      | OtherContent \<Rightarrow> [])"

definition handleToolResult ::
  "registry \<Rightarrow> SessionManager \<Rightarrow> Services option \<Rightarrow> ToolResultEvent \<Rightarrow> int option \<Rightarrow> registry" where
  \<comment> \<open>\<open>services\<close> is what \<open>ensureServices\<close> yields; \<open>stored\<close> is the store's count after the
      summary was made and written, \<open>None\<close> when that did not happen (the write threw, or
      the summary's promise did not settle)\<close>
  "handleToolResult reg sm services event stored =
     (case getRuntime reg sm of
        None \<Rightarrow> reg
      | Some runtime \<Rightarrow>
          (case config runtime of
             None \<Rightarrow> reg
           | Some cfg \<Rightarrow>
               if \<not> enabled cfg then reg
               else if mode cfg = JStr ''off'' \<or> mode cfg = JStr ''retrieve-only'' then reg
               else case services of
                 None \<Rightarrow> reg
               | Some sv \<Rightarrow>
                   if \<not> makeToolFilterPredicate (tools cfg) (ev_toolName event) then reg
                   else if estimateContentLength (ev_content event) < minContentChars (tools cfg)
                   then reg
                   else if ev_isError event then reg
                   else case stored of
                     None \<Rightarrow> reg
                   | Some n \<Rightarrow>
                       updateToolResultSummaryRuntime reg sm (\<lambda>r. r\<lparr>entryCount := n\<rparr>)))"

definition sessionBeforeCompact :: "registry \<Rightarrow> SessionManager \<Rightarrow> registry" where
  "sessionBeforeCompact reg sm =
     updateToolResultSummaryRuntime reg sm (\<lambda>r. r\<lparr>compactionOccurred := True\<rparr>)"

definition dedupResults ::
  "'a Message_scheme list \<Rightarrow> nat list \<Rightarrow> ToolResultSearchResult list
   \<Rightarrow> ToolResultSearchResult list" where
  "dedupResults heap messages rs =
     (let existingToolCallIds = collectExistingToolCallIds heap messages
      in filter (\<lambda>r. toolCallId (result_entry r) \<notin> set existingToolCallIds) rs)"

text \<open>
  The context handler in three steps. \<open>retrieveForContext\<close> runs from the first checks to the
  retrieval and yields the latest user message and the retrieved results;
  \<open>selectResults\<close> is the dedup; \<open>contextHandler\<close> injects. \<open>None\<close> is where the handler
  returns \<open>undefined\<close>.
\<close>

definition retrieveForContext ::
  "(ToolResultSearchResult list \<Rightarrow> bool \<Rightarrow> int \<Rightarrow> string) \<Rightarrow> registry \<Rightarrow> SessionManager
   \<Rightarrow> Services option \<Rightarrow> 'a Message_scheme list \<Rightarrow> nat list
   \<Rightarrow> (nat \<times> ToolResultSearchResult list) option" where
  "retrieveForContext fmt reg sm services heap messages =
     (case getRuntime reg sm of
        None \<Rightarrow> None
      | Some runtime \<Rightarrow>
          (case config runtime of
             None \<Rightarrow> None
           | Some cfg \<Rightarrow>
               if \<not> enabled cfg then None
               else if mode cfg = JStr ''off'' \<or> mode cfg = JStr ''store-only'' then None
               else if \<not> compactionOccurred runtime then None
               else case find (\<lambda>m. role (heap ! m) = ''user'') (rev messages) of
                 None \<Rightarrow> None
               | Some lastUserMessage \<Rightarrow>
                   (let prompt = getUserMessageText (heap ! lastUserMessage)
                    in if prompt = [] \<or> length (js_trim prompt) < 10 then None
                       else case services of
                         None \<Rightarrow> None
                       | Some sv \<Rightarrow>
                           (case retrieveAndFormat fmt (retrieval cfg) (vectorSearch sv)
                                   (buildSearchQuery prompt) (Some (getSessionId sm)) of
                              Rejects \<Rightarrow> None
                            | Resolves result \<Rightarrow>
                                if count result = 0 then None
                                else Some (lastUserMessage, results result)))))"

definition selectResults ::
  "(ToolResultSearchResult list \<Rightarrow> bool \<Rightarrow> int \<Rightarrow> string) \<Rightarrow> registry \<Rightarrow> SessionManager
   \<Rightarrow> Services option \<Rightarrow> 'a Message_scheme list \<Rightarrow> nat list
   \<Rightarrow> (nat \<times> ToolResultSearchResult list) option" where
  "selectResults fmt reg sm services heap messages =
     (case retrieveForContext fmt reg sm services heap messages of
        None \<Rightarrow> None
      | Some (lastUserMessage, retrieved) \<Rightarrow>
          (let filteredResults = dedupResults heap messages retrieved
           in if length filteredResults = 0 then None
              else Some (lastUserMessage, filteredResults)))"

definition append_note :: "string \<Rightarrow> MessageContent \<Rightarrow> MessageContent" where
  "append_note contextNote c =
     (case c of
        StringContent s \<Rightarrow> StringContent (s @ contextNote)
      | BlocksContent bs \<Rightarrow>
          BlocksContent
            (map (\<lambda>block. case block of
                     TextContent t \<Rightarrow> TextContent (t @ contextNote)
                   | ImageContent d m \<Rightarrow> block) bs)
      | OtherContent \<Rightarrow> OtherContent)"

fun injectContext ::
  "nat \<Rightarrow> string \<Rightarrow> nat list \<Rightarrow> 'a Message_scheme list \<Rightarrow> nat list \<times> 'a Message_scheme list" where
  \<comment> \<open>\<open>messages.map((m) => ...)\<close>: the new list, and the heap with the objects it allocated\<close>
  "injectContext lastUserMessage contextNote [] heap = ([], heap)"
| "injectContext lastUserMessage contextNote (m # ms) heap =
     (if role (heap ! m) = ''user'' \<and> m = lastUserMessage
         \<and> msg_content (heap ! m) \<noteq> OtherContent
      then
        (let fresh = length heap;
             (rest, heap') = injectContext lastUserMessage contextNote ms
                 (heap @ [(heap ! m)\<lparr>msg_content :=
                            append_note contextNote (msg_content (heap ! m))\<rparr>])
         in (fresh # rest, heap'))
      else
        (let (rest, heap') = injectContext lastUserMessage contextNote ms heap
         in (m # rest, heap')))"

text \<open>
  The handler of the \<open>context\<close> event: the replacement message list (\<open>None\<close> for
  \<open>undefined\<close>), the heap afterwards, and the ids passed to \<open>store.touch\<close>, in order.
\<close>

definition contextHandler ::
  "(ToolResultSearchResult list \<Rightarrow> bool \<Rightarrow> int \<Rightarrow> string) \<Rightarrow> registry \<Rightarrow> SessionManager
   \<Rightarrow> Services option \<Rightarrow> 'a Message_scheme list \<Rightarrow> nat list
   \<Rightarrow> nat list option \<times> 'a Message_scheme list \<times> string list" where
  "contextHandler fmt reg sm services heap messages =
     (case selectResults fmt reg sm services heap messages of
        None \<Rightarrow> (None, heap, [])
      | Some (lastUserMessage, filteredResults) \<Rightarrow>
          (let cfg = the (config (getToolResultSummaryRuntime reg sm));
               touched = map (\<lambda>r. entry_id (result_entry r)) filteredResults;
               filteredContextBlock =
                 fmt filteredResults (injectFullContent (retrieval cfg))
                   (maxFullContentChars (retrieval cfg));
               contextNote = [CHR 0x0A, CHR 0x0A] @ filteredContextBlock;
               (modifiedMessages, heap') =
                 injectContext lastUserMessage contextNote messages heap
           in (Some modifiedMessages, heap', touched)))"

subsection \<open>Events of a host\<close>

datatype 'a host_event =
    SessionStarts SessionManager jsval jsval
  | ToolResult SessionManager "Services option" ToolResultEvent "int option"
  | SessionBeforeCompact SessionManager
  | ContextEvent SessionManager "Services option" "'a Message_scheme list" "nat list"

fun dispatch ::
  "(ToolResultSearchResult list \<Rightarrow> bool \<Rightarrow> int \<Rightarrow> string) \<Rightarrow> registry \<Rightarrow> 'a host_event
   \<Rightarrow> registry \<times> nat list option" where
  \<comment> \<open>the registry afterwards, and the replacement list a context event is answered with\<close>
  "dispatch fmt reg (SessionStarts sm cfg raw) =
     (buildToolResultSummaryExtension reg sm cfg raw, None)"
| "dispatch fmt reg (ToolResult sm services event stored) =
     (handleToolResult reg sm services event stored, None)"
| "dispatch fmt reg (SessionBeforeCompact sm) = (sessionBeforeCompact reg sm, None)"
| "dispatch fmt reg (ContextEvent sm services heap messages) =
     (reg, fst (contextHandler fmt reg sm services heap messages))"

fun run_events ::
  "(ToolResultSearchResult list \<Rightarrow> bool \<Rightarrow> int \<Rightarrow> string) \<Rightarrow> registry \<Rightarrow> 'a host_event list
   \<Rightarrow> registry \<times> nat list option list" where
  "run_events fmt reg [] = (reg, [])"
| "run_events fmt reg (e # es) =
     (let (reg1, out) = dispatch fmt reg e;
          (reg2, outs) = run_events fmt reg1 es
      in (reg2, out # outs))"

section \<open>Bounds of an effective configuration\<close>

definition summary_in_bounds :: "SummaryConfig \<Rightarrow> bool" where
  "summary_in_bounds s =
     (50 \<le> maxChars s
      \<and> (case batch s of Some b \<Rightarrow> 1 \<le> maxSize b \<and> maxSize b \<le> 50 | None \<Rightarrow> False)
      \<and> (case cache s of Some c \<Rightarrow> 0 \<le> ttlMs c | None \<Rightarrow> False))"

definition retrieval_in_bounds :: "RetrievalConfig \<Rightarrow> bool" where
  "retrieval_in_bounds r =
     (0 \<le> minScore r \<and> minScore r \<le> 1 \<and> 1 \<le> maxResults r \<and> maxResults r \<le> 20)"

section \<open>Sample data\<close>

definition sample_entry :: "string \<Rightarrow> string \<Rightarrow> string \<Rightarrow> ToolResultEntry" where
  \<comment> \<open>an entry of a \<open>bash\<close> call, with the given id, session and tool call\<close>
  "sample_entry i sid call =
     \<lparr>entry_id = i, sessionId = sid, toolCallId = call, entry_toolName = ''bash'',
      entry_input = JObj [(''command'', JStr ''df -h'')], entry_summary = ''disk usage 42%'',
      originalContent = [TextContent ''Filesystem Size Used Avail Use%''],
      entry_isError = False, details = JNull, vector = None, entry_createdAt = 1000,
      accessCount = 0, lastAccessAt = 1000\<rparr>"

definition sample_runtime :: "bool \<Rightarrow> Runtime" where
  \<comment> \<open>the runtime of an enabled session in mode \<open>full\<close>, with the latch as given\<close>
  "sample_runtime latch =
     \<lparr>initialized = False, initError = None, entryCount = 0, lastCleanupAt = None,
      compactionOccurred = latch,
      config = Some (DEFAULT_TOOL_RESULT_SUMMARY_CONFIG\<lparr>enabled := True\<rparr>),
      resolvedDbPath = None, openClawConfig = JNull\<rparr>"

section \<open>Words of the specification\<close>

definition visible_tool_call :: "'a Message_scheme list \<Rightarrow> nat list \<Rightarrow> string \<Rightarrow> bool" where
  \<comment> \<open>the id is the \<open>toolCallId\<close> of a tool-result message of the list\<close>
  "visible_tool_call heap messages i =
     (\<exists>m\<in>set messages. role (heap ! m) = ''toolResult'' \<and> msg_toolCallId (heap ! m) = Some i)"

definition injected_results ::
  "(ToolResultSearchResult list \<Rightarrow> bool \<Rightarrow> int \<Rightarrow> string) \<Rightarrow> registry \<Rightarrow> SessionManager
   \<Rightarrow> Services option \<Rightarrow> 'a Message_scheme list \<Rightarrow> nat list \<Rightarrow> ToolResultSearchResult list" where
  \<comment> \<open>the results the injected block is rendered from; none where nothing is injected\<close>
  "injected_results fmt reg sm services heap messages =
     (case selectResults fmt reg sm services heap messages of
        None \<Rightarrow> []
      | Some (lastUserMessage, filteredResults) \<Rightarrow> filteredResults)"


section \<open>Properties of the tool filter\<close>

subsection \<open>Normalization is idempotent\<close>

lemma ws_lower: "is_js_whitespace (js_lower_char c) = is_js_whitespace c"
  unfolding is_js_whitespace_def js_lower_char_def Let_def
  by (auto simp: mod_if)

lemma lower_idem: "js_lower_char (js_lower_char c) = js_lower_char c"
  unfolding js_lower_char_def Let_def
  by (auto simp: mod_if)

lemma dropWhile_ws_lower:
  "dropWhile is_js_whitespace (map js_lower_char s) =
   map js_lower_char (dropWhile is_js_whitespace s)"
  by (induction s) (auto simp: ws_lower)

lemma trim_lower: "js_trim (js_toLowerCase s) = js_toLowerCase (js_trim s)"
  unfolding js_trim_def js_toLowerCase_def
  by (simp add: dropWhile_ws_lower rev_map)

lemma dropWhile_hd: "xs = [] \<or> \<not> P (hd xs) \<Longrightarrow> dropWhile P xs = xs"
  by (cases xs) auto

lemma dropWhile_rev_stable:
  assumes "dropWhile P t = t"
  shows "dropWhile P (rev (dropWhile P (rev t))) = rev (dropWhile P (rev t))"
proof -
  define u where "u = dropWhile P (rev t)"
  have "rev u = [] \<or> \<not> P (hd (rev u))"
  proof (cases "u = []")
    case True
    then show ?thesis by simp
  next
    case False
    then have ne: "t \<noteq> []" by (auto simp: u_def)
    with assms have nP: "\<not> P (hd t)" by (metis dropWhile_eq_Nil_conv hd_dropWhile)
    have "hd (rev u) = last u" using False by (simp add: hd_rev)
    also have "\<dots> = last (rev t)"
      using False unfolding u_def by (metis takeWhile_dropWhile_id last_appendR)
    also have "\<dots> = hd t" using ne by (simp add: last_rev)
    finally show ?thesis using nP by simp
  qed
  then have "dropWhile P (rev u) = rev u" by (rule dropWhile_hd)
  then show ?thesis by (simp only: u_def)
qed

lemma trim_idem: "js_trim (js_trim s) = js_trim s"
  unfolding js_trim_def
  by (simp add: dropWhile_rev_stable)

lemma normalize_idem:
  "js_toLowerCase (js_trim (js_toLowerCase (js_trim s))) = js_toLowerCase (js_trim s)"
  by (simp add: trim_lower trim_idem) (simp add: js_toLowerCase_def lower_idem)

lemma matchesLoop_iff:
  "matchesLoop n (map compilePattern ps) = (\<exists>p\<in>set ps. pattern_accepts n p)"
  by (induction ps) (auto simp: pattern_accepts_def split: CompiledPattern.splits)

lemma matchesAny_normalized:
  "matchesAny (js_toLowerCase (js_trim name)) (compilePatterns ps) =
   (\<exists>p\<in>set (normalizePatterns ps). pattern_accepts (js_toLowerCase (js_trim name)) p)"
  by (simp add: matchesAny_def compilePatterns_def normalize_idem matchesLoop_iff)

subsection \<open>Exclude precedence\<close>

text \<open>
  C4 (as the code has it). The predicate of \<open>makeToolFilterPredicate\<close> is false whenever
  the trimmed, lowercased tool name is accepted by some exclude pattern, also when an
  include pattern accepts it; when no exclude pattern accepts it and no include pattern
  is left after normalization (patterns that are blank after trimming are dropped) it is
  true; otherwise it is true exactly when some include pattern accepts the name.
\<close>

theorem tool_filter_exclude_precedence:
  "makeToolFilterPredicate conf name =
     (if \<exists>p\<in>set (normalizePatterns (exclude_patterns conf)).
            pattern_accepts (js_toLowerCase (js_trim name)) p then False
      else if normalizePatterns (include_patterns conf) = [] then True
      else \<exists>p\<in>set (normalizePatterns (include_patterns conf)).
            pattern_accepts (js_toLowerCase (js_trim name)) p)"
  unfolding makeToolFilterPredicate_def Let_def matchesAny_normalized
  by (simp add: compilePatterns_def)

theorem tool_filter_exclude_precedence_witness:
  "makeToolFilterPredicate
     \<lparr>include_patterns = Some [''TTS_*'', ''read''], exclude_patterns = Some [''tts_*''],
      minContentChars = 200, tools_maxContentChars = 50000\<rparr> '' tts_Speak '' = False
   \<and> makeToolFilterPredicate
     \<lparr>include_patterns = Some [''TTS_*'', ''read''], exclude_patterns = Some [''tts_*''],
      minContentChars = 200, tools_maxContentChars = 50000\<rparr> ''Read'' = True
   \<and> makeToolFilterPredicate
     \<lparr>include_patterns = None, exclude_patterns = Some [''tts_*''],
      minContentChars = 200, tools_maxContentChars = 50000\<rparr> ''bash'' = True"
proof -
  have a: "pattern_accepts (js_toLowerCase (js_trim '' tts_Speak '')) ''tts_*''"
    by code_simp
  have b: "\<not> pattern_accepts (js_toLowerCase (js_trim ''Read'')) ''tts_*''"
    by code_simp
  have c: "pattern_accepts (js_toLowerCase (js_trim ''Read'')) ''read''"
    by code_simp
  have d: "\<not> pattern_accepts (js_toLowerCase (js_trim ''bash'')) ''tts_*''"
    by code_simp
  have n1: "normalizePatterns (Some [''TTS_*'', ''read'']) = [''tts_*'', ''read'']"
    by code_simp
  have n2: "normalizePatterns (Some [''tts_*'']) = [''tts_*'']"
    by code_simp
  have n3: "normalizePatterns None = []"
    by code_simp
  show ?thesis
    using a b c d
    by (simp add: tool_filter_exclude_precedence n1 n2 n3)
qed

text \<open>
  The claim as worded fails where the include set holds only blank patterns: the set is
  not empty, the name matches none of its patterns, and the predicate is true.
\<close>

theorem tool_filter_blank_include_counterexample:
  "makeToolFilterPredicate
     \<lparr>include_patterns = Some [''  ''], exclude_patterns = None,
      minContentChars = 200, tools_maxContentChars = 50000\<rparr> ''bash'' = True
   \<and> [''  ''] \<noteq> ([] :: string list)
   \<and> matchesAny ''bash'' (compilePatterns (Some [''  ''])) = False
   \<and> pattern_accepts (js_toLowerCase (js_trim ''bash'')) (js_toLowerCase (js_trim ''  '')) = False
   \<and> matchesAny ''bash'' (compilePatterns None) = False"
  by code_simp

section \<open>Properties of the summarizer\<close>

subsection \<open>The cache and the batch loops\<close>



lemma resolve_fields [simp]:
  "pendingItems (resolve p r st) = pendingItems st"
  "summaryCache (resolve p r st) = summaryCache st"
  "batchTimer (resolve p r st) = batchTimer st"
  "timers (resolve p r st) = timers st"
  by (simp_all add: resolve_def)








lemma fallbackAll_cache [simp]: "summaryCache (fallbackAll conf xs st) = summaryCache st"
  by (induction xs arbitrary: st) auto

lemma fallbackAll_pending [simp]: "pendingItems (fallbackAll conf xs st) = pendingItems st"
  by (induction xs arbitrary: st) auto



lemma processResults_pending [simp]:
  "pendingItems (processResults pf conf cc done ss i xs st) = pendingItems st"
  by (induction xs arbitrary: st i) (auto simp: Let_def)









subsection \<open>Every delivered result is ok\<close>

lemma summarize_returned_ok:
  "summarize pf conf llm now done p ps st = (Returned r, st') \<Longrightarrow> is_Ok r"
  by (auto simp: summarize_def Let_def truncation_fallback_def
           split: if_splits option.splits prod.splits bool.splits settles.splits)

lemma resolve_all_ok:
  "is_Ok r \<Longrightarrow> list_all (\<lambda>pr. is_Ok (snd pr)) (settled st) \<Longrightarrow>
   list_all (\<lambda>pr. is_Ok (snd pr)) (settled (resolve p r st))"
  by (simp add: resolve_def)

lemma checkItems_all_ok:
  "checkItems pf cc now xs st = (u, st') \<Longrightarrow>
   list_all (\<lambda>pr. is_Ok (snd pr)) (settled st) \<Longrightarrow>
   list_all (\<lambda>pr. is_Ok (snd pr)) (settled st')"
  by (induction xs arbitrary: st u st')
     (fastforce simp: Let_def resolve_all_ok split: prod.splits option.splits bool.splits)+

lemma fallbackAll_all_ok:
  "list_all (\<lambda>pr. is_Ok (snd pr)) (settled st) \<Longrightarrow>
   list_all (\<lambda>pr. is_Ok (snd pr)) (settled (fallbackAll conf xs st))"
  by (induction xs arbitrary: st) (auto simp: resolve_all_ok truncation_fallback_def)

lemma processResults_all_ok:
  "list_all (\<lambda>pr. is_Ok (snd pr)) (settled st) \<Longrightarrow>
   list_all (\<lambda>pr. is_Ok (snd pr)) (settled (processResults pf conf cc done ss i xs st))"
  by (induction xs arbitrary: st i) (auto simp: Let_def resolve_all_ok truncation_fallback_def)

lemma processBatch_all_ok:
  assumes "list_all (\<lambda>pr. is_Ok (snd pr)) (settled st)"
  shows "list_all (\<lambda>pr. is_Ok (snd pr)) (settled (processBatch pf conf llm now done st))"
proof -
  have a: "list_all (\<lambda>pr. is_Ok (snd pr)) (settled (st\<lparr>pendingItems := []\<rparr>))"
    using assms by simp
  show ?thesis
    unfolding processBatch_def Let_def
    using a
    by (auto simp: fallbackAll_all_ok processResults_all_ok dest: checkItems_all_ok
             split: option.splits prod.splits settles.splits)
qed

subsection \<open>A request behind a timer that has fired\<close>

lemma stale_timer_strands_request:
  assumes "summarize pf conf llm now done p ps st = (Awaiting, st')"
    and "batchTimer st \<noteq> None" and "timers st = []"
    and "batch conf = Some b" and "int (length (pendingItems st)) + 1 < maxSize b"
    and "map_of (settled st) p = None"
  shows "timers st' = [] \<and> map_of (settled st') p = None \<and> batchTimer st' = batchTimer st
         \<and> map promise (pendingItems st') = map promise (pendingItems st) @ [p]"
  using assms
  by (auto simp: summarize_def Let_def scheduleBatch_def
           split: if_splits option.splits prod.splits bool.splits settles.splits)

text \<open>
  C1. Every result \<open>summarize\<close> delivers is ok (\<open>summarize_returned_ok\<close>,
  \<open>processBatch_all_ok\<close>), but with batching a call need not deliver one. The callback of
  the batch timer leaves \<open>batchTimer\<close> set when it fires, so \<open>scheduleBatch\<close> arms no timer
  for the next batch. Below, a first request is queued and resolved when its timer fires;
  a second request is then queued with no timer armed and the queue under \<open>maxSize\<close>: its
  promise is unresolved and nothing is left that would resolve it.
\<close>

theorem summarize_second_batch_never_settles:
  "(let pf = \<lparr>md5_hex = (\<lambda>s. s), json_stringify = (\<lambda>v. Some ''{}'')\<rparr>;
        conf = \<lparr>maxChars = 50, modelName = None, timeoutMs = 10000,
                  minContentForSummarization = 60,
                  cache = Some \<lparr>cache_enabled = True, maxEntries = 1000, ttlMs = 604800000\<rparr>,
                  batch = Some \<lparr>batch_enabled = True, maxDelayMs = 2000, maxSize = 10,
                                minSize = 1\<rparr>\<rparr>;
        llm = \<lparr>generate = (\<lambda>prompt opts. Resolves ''a summary''), generateBatch = None\<rparr>;
        st0 = \<lparr>summaryCache = [], pendingItems = [], batchTimer = None, timers = [],
               nextTimer = 0, settled = []\<rparr>;
        (o1, s1) = summarize pf conf llm 0 1 0
           \<lparr>toolName = ''read'', input = JObj [],
            content = [TextContent (replicate 70 CHR ''a'')], isError = False\<rparr> st0;
        s2 = timerFires pf 0 2000 2001 s1;
        (o3, s3) = summarize pf conf llm 5000 5001 1
           \<lparr>toolName = ''grep'', input = JObj [],
            content = [TextContent (replicate 70 CHR ''b'')], isError = False\<rparr> s2
    in o1 = Awaiting \<and> map fst (timers s1) = [0]
       \<and> settled s2 = [(0, Ok ''a summary'' True (Some False))] \<and> timers s2 = []
       \<and> batchTimer s2 = Some 0
       \<and> o3 = Awaiting \<and> map promise (pendingItems s3) = [1] \<and> timers s3 = []
       \<and> map_of (settled s3) 1 = None)"
  by code_simp

lemma truncation_fallback_length:
  assumes "0 \<le> maxChars conf" and "maxChars conf < int (length body)"
  shows "int (length (summary (truncation_fallback conf body))) = maxChars conf + 3"
  using assms by (simp add: truncation_fallback_def js_slice0_def)

lemma summarize_truncation_length:
  assumes "0 \<le> maxChars conf"
    and "maxChars conf < int (length (extractTextContent (content ps)))"
    and "int (length (extractTextContent (content ps))) \<le> minContentForSummarization conf"
  shows "\<exists>s. summarize pf conf llm now done p ps st = (Returned (Ok s True None), st)
             \<and> int (length s) = maxChars conf + 3"
  using assms
  by (simp add: summarize_def Let_def truncation_fallback_def js_slice0_def)

text \<open>
  C3. The truncation fallback cuts the text at \<open>maxChars\<close> and then appends the ellipsis:
  with \<open>maxChars = 50\<close> and a text of 60 characters (under \<open>minContentForSummarization\<close>)
  the summary has 53 characters.
\<close>

theorem summarize_truncation_exceeds_maxChars:
  "summarize pf
     \<lparr>maxChars = 50, modelName = None, timeoutMs = 10000, minContentForSummarization = 500,
      cache = c, batch = b\<rparr> llm now done p
     \<lparr>toolName = ''bash'', input = JObj [],
      content = [TextContent (replicate 60 CHR ''x'')], isError = False\<rparr> st
   = (Returned (Ok (replicate 50 CHR ''x'' @ ''...'') True None), st)
   \<and> length (replicate 50 CHR ''x'' @ ''...'') = 53"
  by (simp add: summarize_def extractTextContent_def truncation_fallback_def js_slice0_def)

subsection \<open>Content without text\<close>

lemma extract_no_text:
  "\<forall>b\<in>set blocks. \<not> is_TextContent b \<Longrightarrow> extractTextContent blocks = []"
  by (simp add: extractTextContent_def filter_False)

text \<open>
  C9. For a content list with no text block (image blocks only, or none at all),
  \<open>summarize\<close> returns ok with the empty summary and \<open>truncated = false\<close>, and touches
  neither the cache nor the queue; \<open>maxChars\<close> is a character count, not negative.
\<close>

theorem summarize_without_text_blocks:
  assumes "\<forall>b\<in>set (content ps). \<not> is_TextContent b" and "0 \<le> maxChars conf"
  shows "summarize pf conf llm now done p ps st = (Returned (Ok [] False None), st)"
  using assms by (simp add: summarize_def extract_no_text)

theorem summarize_without_text_blocks_witness:
  "summarize \<lparr>md5_hex = (\<lambda>s. s), json_stringify = (\<lambda>v. None)\<rparr>
     \<lparr>maxChars = 200, modelName = None, timeoutMs = 10000, minContentForSummarization = 500,
      cache = None, batch = None\<rparr>
     \<lparr>generate = (\<lambda>prompt opts. Rejects), generateBatch = None\<rparr> 0 0 0
     \<lparr>toolName = ''screenshot'', input = JObj [],
      content = [ImageContent ''iVBORw0KGgo='' ''image/png''], isError = False\<rparr>
     \<lparr>summaryCache = [], pendingItems = [], batchTimer = None, timers = [],
      nextTimer = 0, settled = []\<rparr>
   = (Returned (Ok [] False None),
      \<lparr>summaryCache = [], pendingItems = [], batchTimer = None, timers = [],
       nextTimer = 0, settled = []\<rparr>)"
  by (rule summarize_without_text_blocks) simp_all

subsection \<open>The second call is answered by the cache\<close>



section \<open>Properties of the settings\<close>

lemma cache_bounds: "0 \<le> ttlMs bc \<Longrightarrow> 0 \<le> ttlMs (mergeSummaryCacheConfig bc ov)"
  by (simp add: mergeSummaryCacheConfig_def Let_def split: option.splits)

lemma batch_bounds:
  "1 \<le> maxSize bb \<and> maxSize bb \<le> 50 \<Longrightarrow>
   1 \<le> maxSize (mergeSummaryBatchConfig bb ov) \<and> maxSize (mergeSummaryBatchConfig bb ov) \<le> 50"
  by (simp add: mergeSummaryBatchConfig_def Let_def split: option.splits)

lemma summary_bounds:
  "summary_in_bounds base \<Longrightarrow> summary_in_bounds (mergeSummaryConfig base ov)"
  unfolding summary_in_bounds_def mergeSummaryConfig_def Let_def
  by (auto simp: cache_bounds batch_bounds split: option.splits)

lemma retrieval_bounds:
  "retrieval_in_bounds base \<Longrightarrow> retrieval_in_bounds (mergeRetrievalConfig base ov)"
  unfolding retrieval_in_bounds_def mergeRetrievalConfig_def Let_def
  by (auto split: option.splits)

lemma effective_settings_in_bounds:
  assumes "computeEffectiveSettings raw = Some c"
  shows "summary_in_bounds (summary_group c) \<and> retrieval_in_bounds (retrieval c)"
proof -
  have d1: "summary_in_bounds DEFAULT_SUMMARY_CONFIG"
    by (simp add: summary_in_bounds_def DEFAULT_SUMMARY_CONFIG_def)
  have d2: "retrieval_in_bounds DEFAULT_RETRIEVAL_CONFIG"
    by (simp add: retrieval_in_bounds_def DEFAULT_RETRIEVAL_CONFIG_def)
  from assms show ?thesis
    unfolding computeEffectiveSettings_def Let_def DEFAULT_TOOL_RESULT_SUMMARY_CONFIG_def
    by (auto simp: d1 d2 summary_bounds retrieval_bounds split: if_splits option.splits)
qed

text \<open>
  C10. Every configuration \<open>computeEffectiveSettings\<close> accepts yields an effective
  configuration with \<open>retrieval.minScore\<close> in [0, 1], \<open>retrieval.maxResults\<close> in [1, 20],
  \<open>summary.maxChars\<close> at least 50, \<open>summary.batch.maxSize\<close> in [1, 50] and
  \<open>summary.cache.ttlMs\<close> at least 0, whatever the overrides are.
\<close>

theorem effective_settings_bounds:
  assumes "computeEffectiveSettings raw = Some c"
  shows "0 \<le> minScore (retrieval c) \<and> minScore (retrieval c) \<le> 1
       \<and> 1 \<le> maxResults (retrieval c) \<and> maxResults (retrieval c) \<le> 20
       \<and> 50 \<le> maxChars (summary_group c)
       \<and> (\<exists>b. batch (summary_group c) = Some b \<and> 1 \<le> maxSize b \<and> maxSize b \<le> 50)
       \<and> (\<exists>cc. cache (summary_group c) = Some cc \<and> 0 \<le> ttlMs cc)"
  using effective_settings_in_bounds[OF assms]
  by (auto simp: summary_in_bounds_def retrieval_in_bounds_def split: option.splits)

lemma sample_settings_accepted: "computeEffectiveSettings
     (JObj [(''enabled'', JBool True),
            (''retrieval'', JObj [(''minScore'', JNum (Finite 3)),
                                  (''maxResults'', JNum (Finite (- 7 / 2)))]),
            (''summary'', JObj [(''maxChars'', JNum (Finite 10)),
                                (''batch'', JObj [(''maxSize'', JNum (Finite 1000))]),
                                (''cache'', JObj [(''ttlMs'', JNum (Finite (- 5)))])])]) \<noteq> None"
  by (simp add: computeEffectiveSettings_def is_js_object_def Let_def)

theorem effective_settings_bounds_witness:
  "(let c = the (computeEffectiveSettings
     (JObj [(''enabled'', JBool True),
            (''retrieval'', JObj [(''minScore'', JNum (Finite 3)),
                                  (''maxResults'', JNum (Finite (- 7 / 2)))]),
            (''summary'', JObj [(''maxChars'', JNum (Finite 10)),
                                (''batch'', JObj [(''maxSize'', JNum (Finite 1000))]),
                                (''cache'', JObj [(''ttlMs'', JNum (Finite (- 5)))])])]))
    in 0 \<le> minScore (retrieval c) \<and> minScore (retrieval c) \<le> 1
       \<and> 1 \<le> maxResults (retrieval c) \<and> maxResults (retrieval c) \<le> 20
       \<and> 50 \<le> maxChars (summary_group c)
       \<and> (\<exists>b. batch (summary_group c) = Some b \<and> 1 \<le> maxSize b \<and> maxSize b \<le> 50)
       \<and> (\<exists>cc. cache (summary_group c) = Some cc \<and> 0 \<le> ttlMs cc))"
proof -
  obtain c where c: "computeEffectiveSettings
     (JObj [(''enabled'', JBool True),
            (''retrieval'', JObj [(''minScore'', JNum (Finite 3)),
                                  (''maxResults'', JNum (Finite (- 7 / 2)))]),
            (''summary'', JObj [(''maxChars'', JNum (Finite 10)),
                                (''batch'', JObj [(''maxSize'', JNum (Finite 1000))]),
                                (''cache'', JObj [(''ttlMs'', JNum (Finite (- 5)))])])]) = Some c"
    using sample_settings_accepted by blast
  show ?thesis
    unfolding c Let_def option.sel
    by (rule effective_settings_bounds[OF c])
qed

section \<open>Properties of the store\<close>







section \<open>Properties of the extension\<close>

subsection \<open>The compaction latch\<close>

lemma context_needs_latch:
  "\<not> compactionOccurred (getToolResultSummaryRuntime reg sm) \<Longrightarrow>
   contextHandler fmt reg sm services heap messages = (None, heap, [])"
  by (simp add: contextHandler_def selectResults_def retrieveForContext_def getRuntime_def Let_def
        split: option.splits)

lemma latch_kept_by_dispatch:
  assumes "\<not> compactionOccurred (getToolResultSummaryRuntime reg sm)"
    and "\<forall>sm'. e = SessionBeforeCompact sm' \<longrightarrow> handle sm' \<noteq> handle sm"
  shows "\<not> compactionOccurred (getToolResultSummaryRuntime (fst (dispatch fmt reg e)) sm)"
proof (cases e)
  case (SessionStarts sm' cfg raw)
  with assms(1) show ?thesis
    by (auto simp: buildToolResultSummaryExtension_def setToolResultSummaryRuntime_def
          getToolResultSummaryRuntime_def split: option.splits)
next
  case (ToolResult sm' services event stored)
  with assms(1) show ?thesis
    by (auto simp: handleToolResult_def updateToolResultSummaryRuntime_def
          getToolResultSummaryRuntime_def getRuntime_def Let_def createDefaultRuntime_def
          split: option.splits if_splits)
next
  case (SessionBeforeCompact sm')
  with assms show ?thesis
    by (auto simp: sessionBeforeCompact_def updateToolResultSummaryRuntime_def
          getToolResultSummaryRuntime_def split: option.splits)
next
  case (ContextEvent sm' services heap messages)
  with assms(1) show ?thesis by simp
qed

lemma run_events_Cons:
  "fst (run_events fmt reg (e # es)) = fst (run_events fmt (fst (dispatch fmt reg e)) es)"
  "snd (run_events fmt reg (e # es))
   = snd (dispatch fmt reg e) # snd (run_events fmt (fst (dispatch fmt reg e)) es)"
  by (simp_all add: Let_def split: prod.splits)

lemma run_events_append:
  "fst (run_events fmt reg (xs @ ys)) = fst (run_events fmt (fst (run_events fmt reg xs)) ys)"
  "snd (run_events fmt reg (xs @ ys))
   = snd (run_events fmt reg xs) @ snd (run_events fmt (fst (run_events fmt reg xs)) ys)"
  by (induction xs arbitrary: reg) (simp_all add: run_events_Cons del: run_events.simps(2))

lemma latch_kept_by_run:
  assumes "\<not> compactionOccurred (getToolResultSummaryRuntime reg sm)"
    and "\<forall>e\<in>set evs. \<forall>sm'. e = SessionBeforeCompact sm' \<longrightarrow> handle sm' \<noteq> handle sm"
  shows "\<not> compactionOccurred (getToolResultSummaryRuntime (fst (run_events fmt reg evs)) sm)"
  using assms
proof (induction evs arbitrary: reg)
  case Nil
  then show ?case by simp
next
  case (Cons e evs)
  have "\<not> compactionOccurred (getToolResultSummaryRuntime (fst (dispatch fmt reg e)) sm)"
    using Cons.prems by (intro latch_kept_by_dispatch) auto
  then have "\<not> compactionOccurred
      (getToolResultSummaryRuntime (fst (run_events fmt (fst (dispatch fmt reg e)) evs)) sm)"
    using Cons.prems by (intro Cons.IH) auto
  then show ?case by (simp add: run_events_Cons del: run_events.simps)
qed

text \<open>
  C5. While the session's \<open>compactionOccurred\<close> latch is unset, and through every sequence
  of events with no compaction event of that session, the context handler returns
  \<open>undefined\<close>: it allocates nothing and touches no entry, whatever the store holds.
\<close>

theorem no_injection_before_first_compaction:
  assumes "\<not> compactionOccurred (getToolResultSummaryRuntime reg sm)"
    and "\<forall>e\<in>set evs. \<forall>sm'. e = SessionBeforeCompact sm' \<longrightarrow> handle sm' \<noteq> handle sm"
  shows "contextHandler fmt (fst (run_events fmt reg evs)) sm services heap messages
         = (None, heap, [])
       \<and> snd (run_events fmt reg (evs @ [ContextEvent sm services heap messages]))
         = snd (run_events fmt reg evs) @ [None]"
proof -
  have l: "\<not> compactionOccurred (getToolResultSummaryRuntime (fst (run_events fmt reg evs)) sm)"
    using assms by (rule latch_kept_by_run)
  then have c: "contextHandler fmt (fst (run_events fmt reg evs)) sm services heap messages
                = (None, heap, [])"
    by (rule context_needs_latch)
  then show ?thesis by (simp add: run_events_append)
qed

theorem no_injection_before_first_compaction_witness:
  "(let sm = \<lparr>handle = 7, sm_sessionId = Some ''s1'', sm_sessionFile = None\<rparr>;
        other = \<lparr>handle = 8, sm_sessionId = Some ''s2'', sm_sessionFile = None\<rparr>;
        sv = Some \<lparr>vectorSearch = (\<lambda>q n. Resolves
               [\<lparr>row_entry = sample_entry ''e1'' ''s1'' ''tc1'', row_distance = Some 0\<rparr>])\<rparr>;
        heap = [\<lparr>role = ''user'', msg_content = StringContent ''how much disk space is used?'',
                 msg_toolCallId = None\<rparr>];
        fmt = (\<lambda>rs full n. ''<relevant-tool-results>'');
        evs = [SessionStarts sm JNull (JObj [(''enabled'', JBool True)]),
               ContextEvent sm sv heap [0],
               SessionBeforeCompact other,
               ContextEvent sm sv heap [0]]
    in contextHandler fmt (fst (run_events fmt (\<lambda>h. None) evs)) sm sv heap [0] = (None, heap, [])
       \<and> snd (run_events fmt (\<lambda>h. None) (evs @ [ContextEvent sm sv heap [0]]))
          = [None, None, None, None, None]
       \<and> fst (contextHandler fmt
                 (fst (run_events fmt (\<lambda>h. None) (evs @ [SessionBeforeCompact sm]))) sm sv heap [0])
          = Some [1])"
proof -
  define sm where "sm = \<lparr>handle = 7, sm_sessionId = Some ''s1'', sm_sessionFile = None\<rparr>"
  define other where "other = \<lparr>handle = 8, sm_sessionId = Some ''s2'', sm_sessionFile = None\<rparr>"
  define sv where "sv = Some \<lparr>vectorSearch = (\<lambda>q n. Resolves
               [\<lparr>row_entry = sample_entry ''e1'' ''s1'' ''tc1'', row_distance = Some 0\<rparr>])\<rparr>"
  define heap :: "Message list" where
    "heap = [\<lparr>role = ''user'', msg_content = StringContent ''how much disk space is used?'',
                 msg_toolCallId = None\<rparr>]"
  define fmt :: "ToolResultSearchResult list \<Rightarrow> bool \<Rightarrow> int \<Rightarrow> string" where
    "fmt = (\<lambda>rs full n. ''<relevant-tool-results>'')"
  define evs where "evs = [SessionStarts sm JNull (JObj [(''enabled'', JBool True)]),
               ContextEvent sm sv heap [0],
               SessionBeforeCompact other,
               ContextEvent sm sv heap [0]]"
  have a: "\<not> compactionOccurred (getToolResultSummaryRuntime (\<lambda>h. None) sm)"
    by (simp add: getToolResultSummaryRuntime_def createDefaultRuntime_def)
  have b: "\<forall>e\<in>set evs. \<forall>sm'. e = SessionBeforeCompact sm' \<longrightarrow> handle sm' \<noteq> handle sm"
    by (simp add: evs_def sm_def other_def)
  note t = no_injection_before_first_compaction[OF a b, of fmt sv heap "[0]"]
  have l: "snd (run_events fmt (\<lambda>h. None) evs) = [None, None, None, None]"
    unfolding evs_def sm_def other_def sv_def heap_def fmt_def
    by code_simp
  have c: "fst (contextHandler fmt
                 (fst (run_events fmt (\<lambda>h. None) (evs @ [SessionBeforeCompact sm]))) sm sv heap [0])
          = Some [1]"
    unfolding evs_def sm_def other_def sv_def heap_def fmt_def
    by code_simp
  from t l c show ?thesis
    unfolding Let_def evs_def[symmetric] sm_def[symmetric] other_def[symmetric]
      sv_def[symmetric] heap_def[symmetric] fmt_def[symmetric]
    by simp
qed

subsection \<open>Dedup\<close>

lemma set_map_filter: "set (List.map_filter f xs) = {y. \<exists>x\<in>set xs. f x = Some y}"
  by (induction xs) (auto simp: map_filter_simps split: option.splits)

lemma collect_ids_iff:
  "i \<in> set (collectExistingToolCallIds heap messages) \<longleftrightarrow> (i \<noteq> [] \<and> visible_tool_call heap messages i)"
  unfolding collectExistingToolCallIds_def visible_tool_call_def set_map_filter
  by (fastforce split: option.splits if_splits)

lemma dedup_member:
  "r \<in> set (dedupResults heap messages rs) \<longleftrightarrow>
   r \<in> set rs \<and> \<not> (toolCallId (result_entry r) \<noteq> []
                     \<and> visible_tool_call heap messages (toolCallId (result_entry r)))"
  by (simp add: dedupResults_def Let_def collect_ids_iff)

text \<open>
  C6 (as the code has it). Every retrieved result whose \<open>toolCallId\<close> is not empty and is
  the \<open>toolCallId\<close> of a tool-result message of the current list is left out of the
  results the injected block is made from; when that holds for every retrieved result,
  the handler returns \<open>undefined\<close>.
\<close>

theorem dedup_excludes_visible_results:
  assumes "retrieveForContext fmt reg sm services heap messages = Some (lastUser, retrieved)"
  shows "(\<forall>r\<in>set retrieved.
            toolCallId (result_entry r) \<noteq> []
            \<and> visible_tool_call heap messages (toolCallId (result_entry r))
            \<longrightarrow> r \<notin> set (injected_results fmt reg sm services heap messages))
       \<and> ((\<forall>r\<in>set retrieved.
              toolCallId (result_entry r) \<noteq> []
              \<and> visible_tool_call heap messages (toolCallId (result_entry r)))
            \<longrightarrow> contextHandler fmt reg sm services heap messages = (None, heap, []))"
proof -
  have inj: "set (injected_results fmt reg sm services heap messages)
             \<subseteq> set (dedupResults heap messages retrieved)"
    by (auto simp: injected_results_def selectResults_def assms Let_def split: if_splits)
  have a: "\<forall>r\<in>set retrieved.
            toolCallId (result_entry r) \<noteq> []
            \<and> visible_tool_call heap messages (toolCallId (result_entry r))
            \<longrightarrow> r \<notin> set (injected_results fmt reg sm services heap messages)"
    using inj by (auto simp: dedup_member)
  have b: "contextHandler fmt reg sm services heap messages = (None, heap, [])"
    if all: "\<forall>r\<in>set retrieved. toolCallId (result_entry r) \<noteq> []
              \<and> visible_tool_call heap messages (toolCallId (result_entry r))"
  proof -
    have "dedupResults heap messages retrieved = []"
      using all by (simp add: dedupResults_def Let_def collect_ids_iff filter_empty_conv)
    then show ?thesis
      by (simp add: contextHandler_def selectResults_def assms Let_def)
  qed
  from a b show ?thesis by blast
qed


theorem dedup_excludes_visible_results_witness:
  "(let sm = \<lparr>handle = 7, sm_sessionId = Some ''s1'', sm_sessionFile = None\<rparr>;
        reg = (\<lambda>h. None)(7 \<mapsto> sample_runtime True);
        sv = Some \<lparr>vectorSearch = (\<lambda>q n. Resolves
               [\<lparr>row_entry = sample_entry ''e1'' ''s1'' ''tc1'', row_distance = Some 0\<rparr>])\<rparr>;
        heap = [\<lparr>role = ''toolResult'', msg_content = StringContent ''Filesystem Size Used'',
                 msg_toolCallId = Some ''tc1''\<rparr>,
                \<lparr>role = ''user'', msg_content = StringContent ''how much disk space is used?'',
                 msg_toolCallId = None\<rparr>];
        fmt = (\<lambda>rs full n. ''<relevant-tool-results>'')
    in retrieveForContext fmt reg sm sv heap [0, 1]
         = Some (1, [\<lparr>result_entry = sample_entry ''e1'' ''s1'' ''tc1'', score = 1\<rparr>])
       \<and> visible_tool_call heap [0, 1] ''tc1''
       \<and> injected_results fmt reg sm sv heap [0, 1] = []
       \<and> contextHandler fmt reg sm sv heap [0, 1] = (None, heap, []))"
proof -
  define sm where "sm = \<lparr>handle = 7, sm_sessionId = Some ''s1'', sm_sessionFile = None\<rparr>"
  define reg :: registry where "reg = (\<lambda>h. None)(7 \<mapsto> sample_runtime True)"
  define sv where "sv = Some \<lparr>vectorSearch = (\<lambda>q n. Resolves
               [\<lparr>row_entry = sample_entry ''e1'' ''s1'' ''tc1'', row_distance = Some 0\<rparr>])\<rparr>"
  define heap :: "Message list" where
    "heap = [\<lparr>role = ''toolResult'', msg_content = StringContent ''Filesystem Size Used'',
                 msg_toolCallId = Some ''tc1''\<rparr>,
                \<lparr>role = ''user'', msg_content = StringContent ''how much disk space is used?'',
                 msg_toolCallId = None\<rparr>]"
  define fmt :: "ToolResultSearchResult list \<Rightarrow> bool \<Rightarrow> int \<Rightarrow> string" where
    "fmt = (\<lambda>rs full n. ''<relevant-tool-results>'')"
  define rs where "rs = [\<lparr>result_entry = sample_entry ''e1'' ''s1'' ''tc1'', score = 1\<rparr>]"
  have r: "retrieveForContext fmt reg sm sv heap [0, 1] = Some (1, rs)"
    unfolding sm_def reg_def sv_def heap_def fmt_def rs_def by code_simp
  have v: "visible_tool_call heap [0, 1] ''tc1''"
    by (simp add: visible_tool_call_def heap_def)
  have all: "\<forall>r\<in>set rs. toolCallId (result_entry r) \<noteq> []
              \<and> visible_tool_call heap [0, 1] (toolCallId (result_entry r))"
    using v by (simp add: rs_def sample_entry_def)
  from dedup_excludes_visible_results[OF r] all
  have "contextHandler fmt reg sm sv heap [0, 1] = (None, heap, [])"
    by blast
  moreover have "injected_results fmt reg sm sv heap [0, 1] = []"
    unfolding sm_def reg_def sv_def heap_def fmt_def by code_simp
  ultimately show ?thesis
    using r v
    unfolding Let_def sm_def[symmetric] reg_def[symmetric] sv_def[symmetric]
      heap_def[symmetric] fmt_def[symmetric] rs_def[symmetric]
    by simp
qed

text \<open>
  With the empty string as \<open>toolCallId\<close> the claim as worded fails:
  \<open>collectExistingToolCallIds\<close> skips a message whose \<open>toolCallId\<close> is falsy, so the result
  is injected although a visible tool-result message has its \<open>toolCallId\<close>.
\<close>

theorem dedup_empty_toolCallId_counterexample:
  "(let sm = \<lparr>handle = 7, sm_sessionId = Some ''s1'', sm_sessionFile = None\<rparr>;
        reg = (\<lambda>h. None)(7 \<mapsto> sample_runtime True);
        sv = Some \<lparr>vectorSearch = (\<lambda>q n. Resolves
               [\<lparr>row_entry = sample_entry ''e1'' ''s1'' [], row_distance = Some 0\<rparr>])\<rparr>;
        heap = [\<lparr>role = ''toolResult'', msg_content = StringContent ''Filesystem Size Used'',
                 msg_toolCallId = Some []\<rparr>,
                \<lparr>role = ''user'', msg_content = StringContent ''how much disk space is used?'',
                 msg_toolCallId = None\<rparr>];
        fmt = (\<lambda>rs full n. ''<relevant-tool-results>'')
    in retrieveForContext fmt reg sm sv heap [0, 1]
         = Some (1, [\<lparr>result_entry = sample_entry ''e1'' ''s1'' [], score = 1\<rparr>])
       \<and> role (heap ! 0) = ''toolResult''
       \<and> msg_toolCallId (heap ! 0) = Some (toolCallId (sample_entry ''e1'' ''s1'' []))
       \<and> injected_results fmt reg sm sv heap [0, 1]
         = [\<lparr>result_entry = sample_entry ''e1'' ''s1'' [], score = 1\<rparr>]
       \<and> fst (contextHandler fmt reg sm sv heap [0, 1]) = Some [0, 2])"
  by code_simp

subsection \<open>Injection\<close>










end
